theory Spec2Isabelle
  imports Main "HOL-Library.Word"
begin

section \<open>The vsomeip facade: data model\<close>

text \<open>
  The repository is a C boundary (\<^verbatim>\<open>vsomeipc.cpp\<close>) over a C++ class
  \<^verbatim>\<open>application\<close> (\<^verbatim>\<open>application.cpp\<close>) which in turn calls the vsomeip
  library. The library is not part of the repository: its objects are modelled by what
  the facade can observe of them (the values their getters return), and its operations
  are parameters of the model.
\<close>

subsection \<open>Scalar types of \<^verbatim>\<open>vsomeipc.h\<close>\<close>

type_synonym u8 = "8 word"
type_synonym u32 = "32 word"

type_synonym service_id = "16 word"
type_synonym instance_id = "16 word"
type_synonym method_id = "16 word"
type_synonym notifier_id = "16 word"
type_synonym client_id = "16 word"
type_synonym session_id = "16 word"
type_synonym eventgroup_id = "16 word"
type_synonym protocol_version = "8 word"
type_synonym interface_version = "8 word"
type_synonym major_version = "8 word"
type_synonym minor_version = "32 word"

text \<open>
  A \<^verbatim>\<open>uint8_t const*\<close>: \<open>None\<close> is the null pointer, \<open>Some bs\<close> points to
  memory holding the bytes \<open>bs\<close>.
\<close>

type_synonym byte_ptr = "u8 list option"

subsection \<open>The enumerations of \<^verbatim>\<open>vsomeipc.h\<close>\<close>

text \<open>
  \<^verbatim>\<open>enum message_type\<close> and \<^verbatim>\<open>enum return_code\<close> are plain C
  enumerations. A foreign caller can pass any value of the underlying integer type, so a
  value of either is a 32-bit word and the enumerators are constants.
\<close>

type_synonym message_type = "32 word"
type_synonym return_code = "32 word"

definition MT_REQUEST :: message_type where "MT_REQUEST = 0x00"
definition MT_REQUEST_NO_RETURN :: message_type where "MT_REQUEST_NO_RETURN = 0x01"
definition MT_NOTIFICATION :: message_type where "MT_NOTIFICATION = 0x02"
definition MT_REQUEST_ACK :: message_type where "MT_REQUEST_ACK = 0x40"
definition MT_REQUEST_NO_RETURN_ACK :: message_type where "MT_REQUEST_NO_RETURN_ACK = 0x41"
definition MT_NOTIFICATION_ACK :: message_type where "MT_NOTIFICATION_ACK = 0x42"
definition MT_RESPONSE :: message_type where "MT_RESPONSE = 0x80"
definition MT_ERROR :: message_type where "MT_ERROR = 0x81"
definition MT_RESPONSE_ACK :: message_type where "MT_RESPONSE_ACK = 0xC0"
definition MT_ERROR_ACK :: message_type where "MT_ERROR_ACK = 0xC1"
definition MT_UNKNOWN :: message_type where "MT_UNKNOWN = 0xFF"

definition E_OK :: return_code where "E_OK = 0x00"
definition E_NOT_OK :: return_code where "E_NOT_OK = 0x01"
definition E_UNKNOWN_SERVICE :: return_code where "E_UNKNOWN_SERVICE = 0x02"
definition E_UNKNOWN_METHOD :: return_code where "E_UNKNOWN_METHOD = 0x03"
definition E_NOT_READY :: return_code where "E_NOT_READY = 0x04"
definition E_NOT_REACHABLE :: return_code where "E_NOT_REACHABLE = 0x05"
definition E_TIMEOUT :: return_code where "E_TIMEOUT = 0x06"
definition E_WRONG_PROTOCOL_VERSION :: return_code where "E_WRONG_PROTOCOL_VERSION = 0x07"
definition E_WRONG_INTERFACE_VERSION :: return_code where "E_WRONG_INTERFACE_VERSION = 0x08"
definition E_MALFORMED_MESSAGE :: return_code where "E_MALFORMED_MESSAGE = 0x09"
definition E_WRONG_MESSAGE_TYPE :: return_code where "E_WRONG_MESSAGE_TYPE = 0x0A"
definition E_UNKNOWN :: return_code where "E_UNKNOWN = 0xFF"

subsection \<open>The enumerations of the vsomeip library\<close>

text \<open>
  \<^verbatim>\<open>vsomeip::message_type_e\<close> and \<^verbatim>\<open>vsomeip::return_code_e\<close> are scoped
  enumerations over \<^verbatim>\<open>uint8_t\<close>, declared in the library's headers.
\<close>

datatype message_type_e =
    vsomeip_MT_REQUEST
  | vsomeip_MT_REQUEST_NO_RETURN
  | vsomeip_MT_NOTIFICATION
  | vsomeip_MT_REQUEST_ACK
  | vsomeip_MT_REQUEST_NO_RETURN_ACK
  | vsomeip_MT_NOTIFICATION_ACK
  | vsomeip_MT_RESPONSE
  | vsomeip_MT_ERROR
  | vsomeip_MT_RESPONSE_ACK
  | vsomeip_MT_ERROR_ACK
  | vsomeip_MT_UNKNOWN

datatype return_code_e =
    vsomeip_E_OK
  | vsomeip_E_NOT_OK
  | vsomeip_E_UNKNOWN_SERVICE
  | vsomeip_E_UNKNOWN_METHOD
  | vsomeip_E_NOT_READY
  | vsomeip_E_NOT_REACHABLE
  | vsomeip_E_TIMEOUT
  | vsomeip_E_WRONG_PROTOCOL_VERSION
  | vsomeip_E_WRONG_INTERFACE_VERSION
  | vsomeip_E_MALFORMED_MESSAGE
  | vsomeip_E_WRONG_MESSAGE_TYPE
  | vsomeip_E_UNKNOWN

text \<open>
  Modelled from the spec: the numeric values of the library's enumerators, which its
  headers declare and the repository does not. Section 6 of the specification fixes
  them ("values must match exactly").
\<close>

fun message_type_e_value :: "message_type_e \<Rightarrow> u8" where
  "message_type_e_value vsomeip_MT_REQUEST = 0x00"
| "message_type_e_value vsomeip_MT_REQUEST_NO_RETURN = 0x01"
| "message_type_e_value vsomeip_MT_NOTIFICATION = 0x02"
| "message_type_e_value vsomeip_MT_REQUEST_ACK = 0x40"
| "message_type_e_value vsomeip_MT_REQUEST_NO_RETURN_ACK = 0x41"
| "message_type_e_value vsomeip_MT_NOTIFICATION_ACK = 0x42"
| "message_type_e_value vsomeip_MT_RESPONSE = 0x80"
| "message_type_e_value vsomeip_MT_ERROR = 0x81"
| "message_type_e_value vsomeip_MT_RESPONSE_ACK = 0xC0"
| "message_type_e_value vsomeip_MT_ERROR_ACK = 0xC1"
| "message_type_e_value vsomeip_MT_UNKNOWN = 0xFF"

fun return_code_e_value :: "return_code_e \<Rightarrow> u8" where
  "return_code_e_value vsomeip_E_OK = 0x00"
| "return_code_e_value vsomeip_E_NOT_OK = 0x01"
| "return_code_e_value vsomeip_E_UNKNOWN_SERVICE = 0x02"
| "return_code_e_value vsomeip_E_UNKNOWN_METHOD = 0x03"
| "return_code_e_value vsomeip_E_NOT_READY = 0x04"
| "return_code_e_value vsomeip_E_NOT_REACHABLE = 0x05"
| "return_code_e_value vsomeip_E_TIMEOUT = 0x06"
| "return_code_e_value vsomeip_E_WRONG_PROTOCOL_VERSION = 0x07"
| "return_code_e_value vsomeip_E_WRONG_INTERFACE_VERSION = 0x08"
| "return_code_e_value vsomeip_E_MALFORMED_MESSAGE = 0x09"
| "return_code_e_value vsomeip_E_WRONG_MESSAGE_TYPE = 0x0A"
| "return_code_e_value vsomeip_E_UNKNOWN = 0xFF"

subsection \<open>Faults\<close>

text \<open>
  Every way a call can fail to return: a failed \<^verbatim>\<open>assert\<close>, the
  \<^verbatim>\<open>exit(1)\<close> of the enum translations together with the diagnostic written to
  \<^verbatim>\<open>std::cerr\<close>, and the undefined behaviours of C++ the code can reach
  (dereferencing a null \<^verbatim>\<open>shared_ptr\<close>, using a handle that is not live, reading
  past an array, overflowing an \<^verbatim>\<open>int\<close>), and \<^verbatim>\<open>std::terminate\<close>, which the
  destructor of a joinable \<^verbatim>\<open>std::thread\<close> calls.
\<close>

datatype diagnostic =
    Invalid_message_type message_type
  | Invalid_return_code return_code

datatype fault =
    Assertion_failed
  | Exit diagnostic nat
  | Terminate
  | Null_dereference
  | Dangling_handle
  | Out_of_bounds
  | Signed_overflow

subsection \<open>Enum translation (\<^verbatim>\<open>vsomeipc.cpp\<close>, the two overloads of \<^verbatim>\<open>from\<close>)\<close>

definition from_message_type :: "message_type \<Rightarrow> fault + message_type_e" where
  "from_message_type mt =
    (if mt = MT_REQUEST then Inr vsomeip_MT_REQUEST
     else if mt = MT_REQUEST_NO_RETURN then Inr vsomeip_MT_REQUEST_NO_RETURN
     else if mt = MT_NOTIFICATION then Inr vsomeip_MT_NOTIFICATION
     else if mt = MT_REQUEST_ACK then Inr vsomeip_MT_REQUEST_ACK
     else if mt = MT_REQUEST_NO_RETURN_ACK then Inr vsomeip_MT_REQUEST_NO_RETURN_ACK
     else if mt = MT_NOTIFICATION_ACK then Inr vsomeip_MT_NOTIFICATION_ACK
     else if mt = MT_RESPONSE then Inr vsomeip_MT_RESPONSE
     else if mt = MT_ERROR then Inr vsomeip_MT_ERROR
     else if mt = MT_RESPONSE_ACK then Inr vsomeip_MT_RESPONSE_ACK
     else if mt = MT_ERROR_ACK then Inr vsomeip_MT_ERROR_ACK
     else if mt = MT_UNKNOWN then Inr vsomeip_MT_UNKNOWN
     else Inl (Exit (Invalid_message_type mt) 1))"

definition from_return_code :: "return_code \<Rightarrow> fault + return_code_e" where
  "from_return_code rt =
    (if rt = E_OK then Inr vsomeip_E_OK
     else if rt = E_NOT_OK then Inr vsomeip_E_NOT_OK
     else if rt = E_UNKNOWN_SERVICE then Inr vsomeip_E_UNKNOWN_SERVICE
     else if rt = E_UNKNOWN_METHOD then Inr vsomeip_E_UNKNOWN_METHOD
     else if rt = E_NOT_READY then Inr vsomeip_E_NOT_READY
     else if rt = E_NOT_REACHABLE then Inr vsomeip_E_NOT_REACHABLE
     else if rt = E_TIMEOUT then Inr vsomeip_E_TIMEOUT
     else if rt = E_WRONG_PROTOCOL_VERSION then Inr vsomeip_E_WRONG_PROTOCOL_VERSION
     else if rt = E_WRONG_INTERFACE_VERSION then Inr vsomeip_E_WRONG_INTERFACE_VERSION
     else if rt = E_MALFORMED_MESSAGE then Inr vsomeip_E_MALFORMED_MESSAGE
     else if rt = E_WRONG_MESSAGE_TYPE then Inr vsomeip_E_WRONG_MESSAGE_TYPE
     else if rt = E_UNKNOWN then Inr vsomeip_E_UNKNOWN
     else Inl (Exit (Invalid_return_code rt) 1))"

text \<open>The recognised numeric values, as the specification lists them.\<close>

definition recognized_message_types :: "message_type set" where
  "recognized_message_types =
    {0x00, 0x01, 0x02, 0x40, 0x41, 0x42, 0x80, 0x81, 0xC0, 0xC1, 0xFF}"

definition recognized_return_codes :: "return_code set" where
  "recognized_return_codes =
    {0x00, 0x01, 0x02, 0x03, 0x04, 0x05, 0x06, 0x07, 0x08, 0x09, 0x0A, 0xFF}"

subsection \<open>Objects of the vsomeip library, as the facade observes them\<close>

text \<open>
  A \<^verbatim>\<open>vsomeip::payload\<close> is observed through \<^verbatim>\<open>get_data()\<close> and
  \<^verbatim>\<open>get_length()\<close> (a \<^verbatim>\<open>uint32_t\<close>).
\<close>

record payload =
  pl_data :: byte_ptr
  pl_length :: u32

text \<open>
  A \<^verbatim>\<open>vsomeip::message\<close>: the attributes the send paths of the facade set or read.
  \<open>msg_payload\<close> is a \<^verbatim>\<open>shared_ptr\<close>, \<open>None\<close> when null. Each setter of the
  library changes its own attribute.
\<close>

record message =
  msg_service :: service_id
  msg_instance :: instance_id
  msg_method :: method_id
  msg_client :: client_id
  msg_session :: session_id
  msg_interface_version :: interface_version
  msg_message_type :: message_type_e
  msg_return_code :: return_code_e
  msg_payload :: "payload option"

definition set_service :: "service_id \<Rightarrow> message \<Rightarrow> message" where
  "set_service v m = m\<lparr>msg_service := v\<rparr>"

definition set_instance :: "instance_id \<Rightarrow> message \<Rightarrow> message" where
  "set_instance v m = m\<lparr>msg_instance := v\<rparr>"

definition set_method :: "method_id \<Rightarrow> message \<Rightarrow> message" where
  "set_method v m = m\<lparr>msg_method := v\<rparr>"

definition set_client :: "client_id \<Rightarrow> message \<Rightarrow> message" where
  "set_client v m = m\<lparr>msg_client := v\<rparr>"

definition set_session :: "session_id \<Rightarrow> message \<Rightarrow> message" where
  "set_session v m = m\<lparr>msg_session := v\<rparr>"

definition set_interface_version :: "interface_version \<Rightarrow> message \<Rightarrow> message" where
  "set_interface_version v m = m\<lparr>msg_interface_version := v\<rparr>"

definition set_message_type :: "message_type_e \<Rightarrow> message \<Rightarrow> message" where
  "set_message_type v m = m\<lparr>msg_message_type := v\<rparr>"

definition set_return_code :: "return_code_e \<Rightarrow> message \<Rightarrow> message" where
  "set_return_code v m = m\<lparr>msg_return_code := v\<rparr>"

definition set_payload :: "payload option \<Rightarrow> message \<Rightarrow> message" where
  "set_payload v m = m\<lparr>msg_payload := v\<rparr>"

text \<open>
  A \<^verbatim>\<open>vsomeip::application\<close>: its name, what \<^verbatim>\<open>init()\<close> returns, and what
  \<^verbatim>\<open>send(msg)\<close> leaves in the message it was handed (the library assigns the client
  and session ids there).
\<close>

record vs_application =
  get_name :: string
  app_init :: bool
  app_send :: "message \<Rightarrow> message"

text \<open>
  The \<^verbatim>\<open>vsomeip::runtime\<close>: its factory operations, each returning a
  \<^verbatim>\<open>shared_ptr\<close> (\<open>None\<close> when null). \<open>rt_create_payload_empty\<close> is
  \<^verbatim>\<open>create_payload()\<close> without arguments.
\<close>

record runtime =
  rt_create_application :: "string \<Rightarrow> vs_application option"
  rt_create_payload :: "byte_ptr \<Rightarrow> u32 \<Rightarrow> payload option"
  rt_create_payload_empty :: "payload option"
  rt_create_message :: "bool \<Rightarrow> message option"
  rt_create_request :: "bool \<Rightarrow> message option"

datatype event_type_e = ET_EVENT | ET_FIELD

datatype reliability_type_e = RT_UNKNOWN | RT_RELIABLE | RT_UNRELIABLE

subsection \<open>The world: handle cells and the calls made on the library\<close>

text \<open>
  The calls the facade makes on a \<^verbatim>\<open>vsomeip::application\<close> (named by its
  \<open>get_name\<close>), on the runtime's application registry and on the dispatch thread, in
  the order it makes them. \<open>Call_thread\<close> is the construction of the
  \<^verbatim>\<open>std::thread\<close> that runs \<^verbatim>\<open>_application->start()\<close>. The set of an
  offer or request is the \<^verbatim>\<open>std::set\<close> handed over; the cycle is in milliseconds.
\<close>

datatype call =
    Call_create_application string
  | Call_init string
  | Call_thread string
  | Call_clear_all_handler string
  | Call_stop string
  | Call_join
  | Call_remove_application string
  | Call_send string message
  | Call_offer_event string service_id instance_id notifier_id "eventgroup_id set"
      event_type_e nat bool bool reliability_type_e
  | Call_request_event string service_id instance_id notifier_id "eventgroup_id set"
      event_type_e reliability_type_e

text \<open>
  \<^verbatim>\<open>class application\<close> (\<^verbatim>\<open>application.h\<close>); the members without their leading
  underscore. \<open>m_dispatch_thread\<close> is whether the thread is joinable.
\<close>

record application =
  m_runtime :: "runtime option"
  m_application :: "vs_application option"
  m_dispatch_thread :: bool
  m_state_connected :: bool

text \<open>
  A handle is a pointer to a cell allocated with \<^verbatim>\<open>new\<close> that holds a
  \<^verbatim>\<open>shared_ptr\<close>: \<open>None\<close> is the null handle, and a cell holds \<open>None\<close> when
  its \<^verbatim>\<open>shared_ptr\<close> is null. The cell of an application is the only owner of its
  object, so that deleting the cell runs the destructor.
\<close>

type_synonym addr = nat
type_synonym application_t = "addr option"
type_synonym payload_t = "addr option"
type_synonym message_t = "addr option"

datatype cell =
    Application_cell "application option"
  | Payload_cell "payload option"
  | Message_cell "message option"

record world =
  heap :: "addr \<Rightarrow> cell option"
  next_addr :: addr
  calls :: "call list"

definition record_call :: "call \<Rightarrow> world \<Rightarrow> world" where
  "record_call c w = w\<lparr>calls := calls w @ [c]\<rparr>"

definition new_cell :: "cell \<Rightarrow> world \<Rightarrow> addr \<times> world" where
  "new_cell c w =
    (next_addr w, w\<lparr>heap := (heap w)(next_addr w \<mapsto> c), next_addr := Suc (next_addr w)\<rparr>)"

definition delete_cell :: "addr \<Rightarrow> world \<Rightarrow> world" where
  "delete_cell p w = w\<lparr>heap := (heap w)(p := None)\<rparr>"

section \<open>\<^verbatim>\<open>application.cpp\<close>\<close>

definition application_ctor :: "runtime option \<Rightarrow> vs_application option \<Rightarrow> application" where
  "application_ctor runtime application =
    \<lparr>m_runtime = runtime, m_application = application,
     m_dispatch_thread = False, m_state_connected = False\<rparr>"

definition start :: "application \<Rightarrow> world \<Rightarrow> fault + application \<times> world" where
  "start this w =
    (if m_dispatch_thread this then Inl Assertion_failed
     else (case m_application this of
        None \<Rightarrow> Inl Null_dereference
      | Some application \<Rightarrow>
          Inr (this\<lparr>m_dispatch_thread := True\<rparr>,
               record_call (Call_thread (get_name application)) w)))"

definition stop :: "application \<Rightarrow> world \<Rightarrow> fault + application \<times> world" where
  "stop this w =
    (case m_application this of
       None \<Rightarrow> Inl Null_dereference
     | Some application \<Rightarrow>
         let w1 = record_call (Call_stop (get_name application)) w in
         if m_dispatch_thread this
         then Inr (this\<lparr>m_dispatch_thread := False\<rparr>, record_call Call_join w1)
         else Inr (this, w1))"

text \<open>
  \<^verbatim>\<open>application::create\<close>. \<open>runtime_get\<close> is what
  \<^verbatim>\<open>vsomeip::runtime::get()\<close> returns. The messages written to
  \<^verbatim>\<open>std::cerr\<close> are not part of the model.
\<close>

definition create :: "runtime option \<Rightarrow> string \<Rightarrow> world \<Rightarrow> fault + application option \<times> world" where
  "create runtime_get name w =
    (case runtime_get of
       None \<Rightarrow> Inl Assertion_failed
     | Some runtime \<Rightarrow>
         let w1 = record_call (Call_create_application name) w in
         (case rt_create_application runtime name of
            None \<Rightarrow> Inr (None, w1)
          | Some application \<Rightarrow>
              let w2 = record_call (Call_init (get_name application)) w1 in
              if \<not> app_init application then Inr (None, w2)
              else (case start (application_ctor (Some runtime) (Some application)) w2 of
                      Inl f \<Rightarrow> Inl f
                    | Inr (af, w3) \<Rightarrow> Inr (Some af, w3))))"

text \<open>
  \<^verbatim>\<open>application::~application\<close>. After the body the members are destroyed, and the
  destructor of a \<^verbatim>\<open>std::thread\<close> that is still joinable terminates the process.
\<close>

definition application_dtor :: "application \<Rightarrow> world \<Rightarrow> fault + world" where
  "application_dtor this w =
    (case m_application this of
       Some application \<Rightarrow>
         let w1 = record_call (Call_clear_all_handler (get_name application)) w in
         (case stop this w1 of
            Inl f \<Rightarrow> Inl f
          | Inr (this1, w2) \<Rightarrow>
              (case m_runtime this1 of
                 None \<Rightarrow> Inl Null_dereference
               | Some runtime \<Rightarrow>
                   let w3 = record_call (Call_remove_application (get_name application)) w2 in
                   if m_dispatch_thread this1 then Inl Terminate else Inr w3))
     | None \<Rightarrow> if m_dispatch_thread this then Inl Terminate else Inr w)"

definition create_payload_empty :: "application \<Rightarrow> fault + payload option" where
  "create_payload_empty this =
    (case m_runtime this of
       None \<Rightarrow> Inl Null_dereference
     | Some runtime \<Rightarrow> Inr (rt_create_payload_empty runtime))"

definition create_payload :: "application \<Rightarrow> byte_ptr \<Rightarrow> u32 \<Rightarrow> fault + payload option" where
  "create_payload this data size' =
    (case m_runtime this of
       None \<Rightarrow> Inl Null_dereference
     | Some runtime \<Rightarrow> Inr (rt_create_payload runtime data size'))"

text \<open>
  \<^verbatim>\<open>application::create_message\<close> calls \<^verbatim>\<open>create_message()\<close> of the runtime
  without an argument; the library declares the parameter with the default \<^verbatim>\<open>false\<close>.
\<close>

definition create_message :: "application \<Rightarrow> fault + message option" where
  "create_message this =
    (case m_runtime this of
       None \<Rightarrow> Inl Null_dereference
     | Some runtime \<Rightarrow> Inr (rt_create_message runtime False))"

text \<open>
  \<^verbatim>\<open>_application->send(msg)\<close>: the call is recorded with the message as it is handed
  over; the result is the message as the library leaves it.
\<close>

definition send :: "application \<Rightarrow> message \<Rightarrow> world \<Rightarrow> fault + message \<times> world" where
  "send this msg w =
    (case m_application this of
       None \<Rightarrow> Inl Null_dereference
     | Some application \<Rightarrow>
         Inr (app_send application msg, record_call (Call_send (get_name application) msg) w))"

definition send_request ::
  "application \<Rightarrow> service_id \<Rightarrow> instance_id \<Rightarrow> method_id \<Rightarrow> major_version \<Rightarrow>
   byte_ptr \<Rightarrow> u32 \<Rightarrow> bool \<Rightarrow> world \<Rightarrow> fault + session_id \<times> world" where
  "send_request this service instance method major data data_len reliable w =
    (case m_runtime this of
       None \<Rightarrow> Inl Null_dereference
     | Some runtime \<Rightarrow>
         let payload = rt_create_payload runtime data data_len in
         (case rt_create_request runtime reliable of
            None \<Rightarrow> Inl Null_dereference
          | Some msg0 \<Rightarrow>
              let msg1 = set_service service msg0;
                  msg2 = set_instance instance msg1;
                  msg3 = set_method method msg2;
                  msg4 = set_payload payload msg3;
                  msg5 = set_interface_version major msg4
              in (case send this msg5 w of
                    Inl f \<Rightarrow> Inl f
                  | Inr (msg6, w1) \<Rightarrow> Inr (msg_session msg6, w1))))"

definition send_response ::
  "application \<Rightarrow> service_id \<Rightarrow> instance_id \<Rightarrow> method_id \<Rightarrow> client_id \<Rightarrow> session_id \<Rightarrow>
   major_version \<Rightarrow> bool \<Rightarrow> return_code_e \<Rightarrow> byte_ptr \<Rightarrow> u32 \<Rightarrow> world \<Rightarrow> fault + world" where
  "send_response this service instance method client session major reliable rc data data_len w =
    (case m_runtime this of
       None \<Rightarrow> Inl Null_dereference
     | Some runtime \<Rightarrow>
         let payload = rt_create_payload runtime data data_len in
         (case rt_create_message runtime reliable of
            None \<Rightarrow> Inl Null_dereference
          | Some msg0 \<Rightarrow>
              let msg1 = set_service service msg0;
                  msg2 = set_instance instance msg1;
                  msg3 = set_method method msg2;
                  msg4 = set_client client msg3;
                  msg5 = set_session session msg4;
                  msg6 = set_interface_version major msg5;
                  msg7 = set_message_type vsomeip_MT_RESPONSE msg6;
                  msg8 = set_return_code rc msg7;
                  msg9 = set_payload payload msg8
              in (case send this msg9 w of
                    Inl f \<Rightarrow> Inl f
                  | Inr (msg10, w1) \<Rightarrow> Inr w1)))"

definition send_error ::
  "application \<Rightarrow> service_id \<Rightarrow> instance_id \<Rightarrow> method_id \<Rightarrow> client_id \<Rightarrow> session_id \<Rightarrow>
   major_version \<Rightarrow> bool \<Rightarrow> return_code_e \<Rightarrow> world \<Rightarrow> fault + world" where
  "send_error this service instance method client session major reliable rc w =
    (case m_runtime this of
       None \<Rightarrow> Inl Null_dereference
     | Some runtime \<Rightarrow>
         (case rt_create_message runtime reliable of
            None \<Rightarrow> Inl Null_dereference
          | Some msg0 \<Rightarrow>
              let msg1 = set_service service msg0;
                  msg2 = set_instance instance msg1;
                  msg3 = set_method method msg2;
                  msg4 = set_client client msg3;
                  msg5 = set_session session msg4;
                  msg6 = set_interface_version major msg5;
                  msg7 = set_message_type vsomeip_MT_RESPONSE msg6;
                  msg8 = set_return_code rc msg7
              in (case send this msg8 w of
                    Inl f \<Rightarrow> Inl f
                  | Inr (msg9, w1) \<Rightarrow> Inr w1)))"

text \<open>
  \<^verbatim>\<open>application::offer_event\<close> and \<^verbatim>\<open>application::request_event\<close> forward
  their arguments. The epsilon function of an offer is always the default null of
  \<^verbatim>\<open>application.h\<close> and is left out of the recorded call.
\<close>

definition offer_event ::
  "application \<Rightarrow> service_id \<Rightarrow> instance_id \<Rightarrow> notifier_id \<Rightarrow> eventgroup_id set \<Rightarrow>
   event_type_e \<Rightarrow> nat \<Rightarrow> bool \<Rightarrow> bool \<Rightarrow> reliability_type_e \<Rightarrow> world \<Rightarrow> fault + world" where
  "offer_event this service instance notifier event_groups type cycle change_resets_cycle
      update_on_change reliability w =
    (case m_application this of
       None \<Rightarrow> Inl Null_dereference
     | Some application \<Rightarrow>
         Inr (record_call (Call_offer_event (get_name application) service instance notifier
                event_groups type cycle change_resets_cycle update_on_change reliability) w))"

definition request_event ::
  "application \<Rightarrow> service_id \<Rightarrow> instance_id \<Rightarrow> notifier_id \<Rightarrow> eventgroup_id set \<Rightarrow>
   event_type_e \<Rightarrow> reliability_type_e \<Rightarrow> world \<Rightarrow> fault + world" where
  "request_event this service instance event event_groups type reliability w =
    (case m_application this of
       None \<Rightarrow> Inl Null_dereference
     | Some application \<Rightarrow>
         Inr (record_call (Call_request_event (get_name application) service instance event
                event_groups type reliability) w))"

section \<open>\<^verbatim>\<open>vsomeipc.cpp\<close>\<close>

text \<open>
  \<^verbatim>\<open>assert(app && *app)\<close> followed by the use of \<^verbatim>\<open>*app\<close>: the application
  object behind a handle.
\<close>

definition assert_app :: "application_t \<Rightarrow> world \<Rightarrow> fault + application" where
  "assert_app app w =
    (case app of
       None \<Rightarrow> Inl Assertion_failed
     | Some p \<Rightarrow>
         (case heap w p of
            Some (Application_cell (Some a)) \<Rightarrow> Inr a
          | Some (Application_cell None) \<Rightarrow> Inl Assertion_failed
          | _ \<Rightarrow> Inl Dangling_handle))"

definition create_application ::
  "runtime option \<Rightarrow> string \<Rightarrow> world \<Rightarrow> fault + application_t \<times> world" where
  "create_application runtime_get name w =
    (case create runtime_get name w of
       Inl f \<Rightarrow> Inl f
     | Inr (af, w1) \<Rightarrow>
         (case af of
            Some a \<Rightarrow> (let (p, w2) = new_cell (Application_cell af) w1 in Inr (Some p, w2))
          | None \<Rightarrow> Inr (None, w1)))"

definition application_delete :: "application_t \<Rightarrow> world \<Rightarrow> fault + world" where
  "application_delete app w =
    (case app of
       None \<Rightarrow> Inr w
     | Some p \<Rightarrow>
         (case heap w p of
            Some (Application_cell None) \<Rightarrow> Inr w
          | Some (Application_cell (Some a)) \<Rightarrow>
              (case application_dtor a w of
                 Inl f \<Rightarrow> Inl f
               | Inr w1 \<Rightarrow> Inr (delete_cell p w1))
          | _ \<Rightarrow> Inl Dangling_handle))"

definition application_payload_create ::
  "application_t \<Rightarrow> byte_ptr \<Rightarrow> u32 \<Rightarrow> world \<Rightarrow> fault + payload_t \<times> world" where
  "application_payload_create app data size' w =
    (case assert_app app w of
       Inl f \<Rightarrow> Inl f
     | Inr a \<Rightarrow>
         (case create_payload a data size' of
            Inl f \<Rightarrow> Inl f
          | Inr pl \<Rightarrow>
              (case pl of
                 Some x \<Rightarrow> (let (p, w1) = new_cell (Payload_cell pl) w in Inr (Some p, w1))
               | None \<Rightarrow> Inr (None, w))))"

definition payload_create_empty :: "application_t \<Rightarrow> world \<Rightarrow> fault + payload_t \<times> world" where
  "payload_create_empty app w =
    (case assert_app app w of
       Inl f \<Rightarrow> Inl f
     | Inr a \<Rightarrow>
         (case create_payload_empty a of
            Inl f \<Rightarrow> Inl f
          | Inr pl \<Rightarrow>
              (case pl of
                 Some x \<Rightarrow> (let (p, w1) = new_cell (Payload_cell pl) w in Inr (Some p, w1))
               | None \<Rightarrow> Inr (None, w))))"

text \<open>\<^verbatim>\<open>delete\<close> of a null pointer does nothing.\<close>

definition payload_destroy :: "payload_t \<Rightarrow> world \<Rightarrow> fault + world" where
  "payload_destroy pl w =
    (case pl of
       None \<Rightarrow> Inr w
     | Some p \<Rightarrow>
         (case heap w p of
            Some (Payload_cell x) \<Rightarrow> Inr (delete_cell p w)
          | _ \<Rightarrow> Inl Dangling_handle))"

definition application_create_message ::
  "application_t \<Rightarrow> service_id \<Rightarrow> instance_id \<Rightarrow> method_id \<Rightarrow> session_id \<Rightarrow>
   message_type \<Rightarrow> return_code \<Rightarrow> byte_ptr \<Rightarrow> u32 \<Rightarrow> world \<Rightarrow> fault + message_t \<times> world" where
  "application_create_message app service instance method session message_type return_code
      data data_size w =
    (case assert_app app w of
       Inl f \<Rightarrow> Inl f
     | Inr a \<Rightarrow>
         (case create_message a of
            Inl f \<Rightarrow> Inl f
          | Inr None \<Rightarrow> Inr (None, w)
          | Inr (Some msg0) \<Rightarrow>
              let msg1 = set_service service msg0;
                  msg2 = set_instance instance msg1;
                  msg3 = set_method method msg2;
                  msg4 = set_session session msg3
              in (case from_message_type message_type of
                    Inl f \<Rightarrow> Inl f
                  | Inr mt \<Rightarrow>
                      let msg5 = set_message_type mt msg4 in
                      (case from_return_code return_code of
                         Inl f \<Rightarrow> Inl f
                       | Inr rc \<Rightarrow>
                           let msg6 = set_return_code rc msg5 in
                           if 0 < data_size
                           then (if data = None then Inl Assertion_failed
                                 else (case create_payload a data data_size of
                                         Inl f \<Rightarrow> Inl f
                                       | Inr pl \<Rightarrow>
                                           (let (p, w1) =
                                              new_cell (Message_cell (Some (set_payload pl msg6))) w
                                            in Inr (Some p, w1))))
                           else (let (p, w1) = new_cell (Message_cell (Some msg6)) w
                                 in Inr (Some p, w1))))))"

definition message_destroy :: "message_t \<Rightarrow> world \<Rightarrow> fault + world" where
  "message_destroy msg w =
    (case msg of
       None \<Rightarrow> Inr w
     | Some p \<Rightarrow>
         (case heap w p of
            Some (Message_cell x) \<Rightarrow> Inr (delete_cell p w)
          | _ \<Rightarrow> Inl Dangling_handle))"

text \<open>
  The loop of \<^verbatim>\<open>application_offer_event\<close> and \<^verbatim>\<open>application_request_event\<close>:
  \<^verbatim>\<open>for(int i = 0; i < event_groups_size; ++i) event_groups_set.emplace(event_groups[i])\<close>.
  The array has as many elements as the list; \<open>i\<close> is an \<^verbatim>\<open>int\<close> that starts at
  0, so it is compared as it is with the unsigned size, and incrementing it at
  \<^verbatim>\<open>INT_MAX\<close> overflows.
\<close>

function event_groups_loop ::
  "eventgroup_id list \<Rightarrow> u32 \<Rightarrow> nat \<Rightarrow> eventgroup_id set \<Rightarrow> fault + eventgroup_id set" where
  "event_groups_loop event_groups event_groups_size i event_groups_set =
    (if i < unat event_groups_size
     then (if i < length event_groups
           then (if i = 2147483647 then Inl Signed_overflow
                 else event_groups_loop event_groups event_groups_size (Suc i)
                        (insert (event_groups ! i) event_groups_set))
           else Inl Out_of_bounds)
     else Inr event_groups_set)"
  by pat_completeness auto
termination
  by (relation "measure (\<lambda>(event_groups, event_groups_size, i, event_groups_set).
        unat event_groups_size - i)") auto

declare event_groups_loop.simps [simp del]

definition application_offer_event ::
  "application_t \<Rightarrow> service_id \<Rightarrow> instance_id \<Rightarrow> notifier_id \<Rightarrow> eventgroup_id list option \<Rightarrow>
   u32 \<Rightarrow> bool \<Rightarrow> u32 \<Rightarrow> bool \<Rightarrow> bool \<Rightarrow> world \<Rightarrow> fault + world" where
  "application_offer_event app service instance notifier event_groups event_groups_size is_field
      cycle change_resets_cycle update_on_change w =
    (case assert_app app w of
       Inl f \<Rightarrow> Inl f
     | Inr a \<Rightarrow>
         (case event_groups of
            None \<Rightarrow> Inl Assertion_failed
          | Some egs \<Rightarrow>
              (case event_groups_loop egs event_groups_size 0 {} of
                 Inl f \<Rightarrow> Inl f
               | Inr event_groups_set \<Rightarrow>
                   offer_event a service instance notifier event_groups_set
                     (if is_field then ET_FIELD else ET_EVENT)
                     (unat cycle) change_resets_cycle update_on_change RT_UNKNOWN w)))"

definition application_request_event ::
  "application_t \<Rightarrow> service_id \<Rightarrow> instance_id \<Rightarrow> notifier_id \<Rightarrow> eventgroup_id list option \<Rightarrow>
   u32 \<Rightarrow> bool \<Rightarrow> world \<Rightarrow> fault + world" where
  "application_request_event app service instance notifier event_groups event_groups_size
      is_field w =
    (case assert_app app w of
       Inl f \<Rightarrow> Inl f
     | Inr a \<Rightarrow>
         (case event_groups of
            None \<Rightarrow> Inl Assertion_failed
          | Some egs \<Rightarrow>
              (case event_groups_loop egs event_groups_size 0 {} of
                 Inl f \<Rightarrow> Inl f
               | Inr event_groups_set \<Rightarrow>
                   request_event a service instance notifier event_groups_set
                     (if is_field then ET_FIELD else ET_EVENT) RT_UNKNOWN w)))"

definition application_send_request ::
  "application_t \<Rightarrow> service_id \<Rightarrow> instance_id \<Rightarrow> method_id \<Rightarrow> major_version \<Rightarrow> bool \<Rightarrow>
   byte_ptr \<Rightarrow> u32 \<Rightarrow> world \<Rightarrow> fault + session_id \<times> world" where
  "application_send_request app service instance method major reliable data data_len w =
    (case assert_app app w of
       Inl f \<Rightarrow> Inl f
     | Inr a \<Rightarrow> send_request a service instance method major data data_len reliable w)"

definition application_send_response ::
  "application_t \<Rightarrow> service_id \<Rightarrow> instance_id \<Rightarrow> method_id \<Rightarrow> client_id \<Rightarrow> session_id \<Rightarrow>
   major_version \<Rightarrow> bool \<Rightarrow> return_code \<Rightarrow> byte_ptr \<Rightarrow> u32 \<Rightarrow> world \<Rightarrow> fault + world" where
  "application_send_response app service instance method client session major reliable rc
      data data_len w =
    (case assert_app app w of
       Inl f \<Rightarrow> Inl f
     | Inr a \<Rightarrow>
         (case from_return_code rc of
            Inl f \<Rightarrow> Inl f
          | Inr rc' \<Rightarrow>
              send_response a service instance method client session major reliable rc'
                data data_len w))"

definition application_send_error ::
  "application_t \<Rightarrow> service_id \<Rightarrow> instance_id \<Rightarrow> method_id \<Rightarrow> client_id \<Rightarrow> session_id \<Rightarrow>
   major_version \<Rightarrow> bool \<Rightarrow> return_code \<Rightarrow> world \<Rightarrow> fault + world" where
  "application_send_error app service instance method client session major reliable rc w =
    (case assert_app app w of
       Inl f \<Rightarrow> Inl f
     | Inr a \<Rightarrow>
         (case from_return_code rc of
            Inl f \<Rightarrow> Inl f
          | Inr rc' \<Rightarrow>
              send_error a service instance method client session major reliable rc' w))"

record PayloadInfo =
  info_data :: byte_ptr
  info_len :: u32

definition payload_get_info :: "payload_t \<Rightarrow> world \<Rightarrow> fault + PayloadInfo" where
  "payload_get_info pl w =
    (case pl of
       None \<Rightarrow> Inl Assertion_failed
     | Some p \<Rightarrow>
         (case heap w p of
            Some (Payload_cell (Some x)) \<Rightarrow> Inr \<lparr>info_data = pl_data x, info_len = pl_length x\<rparr>
          | Some (Payload_cell None) \<Rightarrow> Inr \<lparr>info_data = None, info_len = 0\<rparr>
          | _ \<Rightarrow> Inl Dangling_handle))"

section \<open>Notions used to state the properties\<close>

text \<open>
  The bytes that a pointer and a length describe: the first \<open>n\<close> bytes at the
  pointer, when there are that many; a null pointer describes the empty buffer only.
\<close>

definition view :: "byte_ptr \<Rightarrow> u32 \<Rightarrow> u8 list option" where
  "view p n =
    (case p of
       None \<Rightarrow> if n = 0 then Some [] else None
     | Some bs \<Rightarrow> if unat n \<le> length bs then Some (take (unat n) bs) else None)"

text \<open>A payload pointer that is null, or whose payload has length 0.\<close>

definition payload_empty :: "payload option \<Rightarrow> bool" where
  "payload_empty pl = (case pl of None \<Rightarrow> True | Some p \<Rightarrow> pl_length p = 0)"

subsection \<open>A sample library, for concrete instances\<close>

text \<open>
  A runtime whose applications initialise, whose payloads hold the bytes they were
  created from, and whose \<^verbatim>\<open>send\<close> assigns client 0x0101 and session 0x0001.
\<close>

definition sample_message :: message where
  "sample_message =
    \<lparr>msg_service = 0, msg_instance = 0, msg_method = 0, msg_client = 0, msg_session = 0,
     msg_interface_version = 0, msg_message_type = vsomeip_MT_UNKNOWN,
     msg_return_code = vsomeip_E_OK, msg_payload = Some \<lparr>pl_data = None, pl_length = 0\<rparr>\<rparr>"

definition sample_vs_application :: "string \<Rightarrow> vs_application" where
  "sample_vs_application name =
    \<lparr>get_name = name, app_init = True,
     app_send = (\<lambda>m. m\<lparr>msg_client := 0x0101, msg_session := 0x0001\<rparr>)\<rparr>"

definition sample_runtime :: runtime where
  "sample_runtime =
    \<lparr>rt_create_application = (\<lambda>name. Some (sample_vs_application name)),
     rt_create_payload = (\<lambda>data n. Some \<lparr>pl_data = data, pl_length = n\<rparr>),
     rt_create_payload_empty = Some \<lparr>pl_data = None, pl_length = 0\<rparr>,
     rt_create_message = (\<lambda>reliable. Some sample_message),
     rt_create_request = (\<lambda>reliable. Some sample_message)\<rparr>"

definition sample_application :: application where
  "sample_application =
    \<lparr>m_runtime = Some sample_runtime, m_application = Some (sample_vs_application ''A1''),
     m_dispatch_thread = True, m_state_connected = False\<rparr>"

definition sample_world :: world where
  "sample_world =
    \<lparr>heap = Map.empty(0 \<mapsto> Application_cell (Some sample_application)),
     next_addr = 1, calls = []\<rparr>"

section \<open>Properties\<close>

lemmas message_type_defs =
  MT_REQUEST_def MT_REQUEST_NO_RETURN_def MT_NOTIFICATION_def MT_REQUEST_ACK_def
  MT_REQUEST_NO_RETURN_ACK_def MT_NOTIFICATION_ACK_def MT_RESPONSE_def MT_ERROR_def
  MT_RESPONSE_ACK_def MT_ERROR_ACK_def MT_UNKNOWN_def

lemmas return_code_defs =
  E_OK_def E_NOT_OK_def E_UNKNOWN_SERVICE_def E_UNKNOWN_METHOD_def E_NOT_READY_def
  E_NOT_REACHABLE_def E_TIMEOUT_def E_WRONG_PROTOCOL_VERSION_def
  E_WRONG_INTERFACE_VERSION_def E_MALFORMED_MESSAGE_def E_WRONG_MESSAGE_TYPE_def
  E_UNKNOWN_def

lemmas setter_defs =
  set_service_def set_instance_def set_method_def set_client_def set_session_def
  set_interface_version_def set_message_type_def set_return_code_def set_payload_def

subsection \<open>Enum translation\<close>

lemma from_message_type_recognized:
  "mt \<in> recognized_message_types \<Longrightarrow>
     \<exists>e. from_message_type mt = Inr e \<and> ucast (message_type_e_value e) = mt"
  unfolding recognized_message_types_def from_message_type_def message_type_defs
  by auto

lemma from_message_type_unrecognized:
  "mt \<notin> recognized_message_types \<Longrightarrow>
     from_message_type mt = Inl (Exit (Invalid_message_type mt) 1)"
  unfolding recognized_message_types_def from_message_type_def message_type_defs
  by simp

lemma from_return_code_recognized:
  "rc \<in> recognized_return_codes \<Longrightarrow>
     \<exists>e. from_return_code rc = Inr e \<and> ucast (return_code_e_value e) = rc"
  unfolding recognized_return_codes_def from_return_code_def return_code_defs
  by auto

lemma from_return_code_unrecognized:
  "rc \<notin> recognized_return_codes \<Longrightarrow>
     from_return_code rc = Inl (Exit (Invalid_return_code rc) 1)"
  unfolding recognized_return_codes_def from_return_code_def return_code_defs
  by simp

text \<open>
  C3. A message-type value outside the recognised set, and a return-code value outside
  its recognised set, make the translation end the process with exit status 1 and a
  diagnostic naming the value; no enumerator is returned. A value inside the set is
  translated to the enumerator of the library with the same numeric value.
\<close>

theorem from_translation:
  "(mt \<in> recognized_message_types \<longrightarrow>
      (\<exists>e. from_message_type mt = Inr e \<and> ucast (message_type_e_value e) = mt)) \<and>
   (mt \<notin> recognized_message_types \<longrightarrow>
      from_message_type mt = Inl (Exit (Invalid_message_type mt) 1)) \<and>
   (rc \<in> recognized_return_codes \<longrightarrow>
      (\<exists>e. from_return_code rc = Inr e \<and> ucast (return_code_e_value e) = rc)) \<and>
   (rc \<notin> recognized_return_codes \<longrightarrow>
      from_return_code rc = Inl (Exit (Invalid_return_code rc) 1))"
  using from_message_type_recognized from_message_type_unrecognized
    from_return_code_recognized from_return_code_unrecognized
  by blast

theorem from_translation_witness:
  "(0x81 :: message_type) \<in> recognized_message_types \<and>
   (\<exists>e. from_message_type 0x81 = Inr e \<and> ucast (message_type_e_value e) = (0x81 :: message_type)) \<and>
   (0x0B :: return_code) \<notin> recognized_return_codes \<and>
   from_return_code 0x0B = Inl (Exit (Invalid_return_code 0x0B) 1) \<and>
   (0x03 :: message_type) \<notin> recognized_message_types \<and>
   from_message_type 0x03 = Inl (Exit (Invalid_message_type 0x03) 1) \<and>
   (0xFF :: return_code) \<in> recognized_return_codes \<and>
   (\<exists>e. from_return_code 0xFF = Inr e \<and> ucast (return_code_e_value e) = (0xFF :: return_code))"
proof -
  have m: "(0x81 :: message_type) \<in> recognized_message_types"
    and m': "(0x03 :: message_type) \<notin> recognized_message_types"
    by (simp_all add: recognized_message_types_def)
  have r: "(0x0B :: return_code) \<notin> recognized_return_codes"
    and r': "(0xFF :: return_code) \<in> recognized_return_codes"
    by (simp_all add: recognized_return_codes_def)
  from from_translation [of "0x81" "0x0B"] from_translation [of "0x03" "0xFF"] m m' r r'
  show ?thesis
    by blast
qed

subsection \<open>Responses\<close>

text \<open>
  C1. When the runtime hands out a message object and the application object exists,
  \<^verbatim>\<open>send_response\<close> makes exactly one call, a \<^verbatim>\<open>send\<close>, and the message it
  hands over carries the given service, instance, method, client, session and interface
  version, the message type response (numerically 0x80), the given return code, and the
  payload the runtime created from the given bytes.
\<close>

theorem send_response_message:
  assumes "m_runtime this = Some rt"
    and "rt_create_message rt reliable = Some msg0"
    and "m_application this = Some v"
  shows "\<exists>msg.
    send_response this service instance method client session major reliable rc data data_len w
      = Inr (record_call (Call_send (get_name v) msg) w) \<and>
    msg_service msg = service \<and> msg_instance msg = instance \<and> msg_method msg = method \<and>
    msg_client msg = client \<and> msg_session msg = session \<and>
    msg_interface_version msg = major \<and>
    msg_message_type msg = vsomeip_MT_RESPONSE \<and>
    message_type_e_value (msg_message_type msg) = 0x80 \<and>
    msg_return_code msg = rc \<and>
    msg_payload msg = rt_create_payload rt data data_len"
proof -
  let ?msg = "msg0\<lparr>msg_service := service, msg_instance := instance, msg_method := method,
    msg_client := client, msg_session := session, msg_interface_version := major,
    msg_message_type := vsomeip_MT_RESPONSE, msg_return_code := rc,
    msg_payload := rt_create_payload rt data data_len\<rparr>"
  show ?thesis
    using assms
    by (intro exI [of _ ?msg]) (simp add: send_response_def send_def setter_defs Let_def)
qed

text \<open>
  The scenario of the specification: a response for client 0x07 and session 0x0042 with
  the return code unknown-method.
\<close>

theorem send_response_message_witness:
  "\<exists>msg.
    send_response sample_application 0x1234 0x0001 0x0421 0x07 0x0042 1 True
        vsomeip_E_UNKNOWN_METHOD (Some [1, 2, 3]) 3 sample_world
      = Inr (record_call (Call_send ''A1'' msg) sample_world) \<and>
    msg_service msg = 0x1234 \<and> msg_client msg = 0x07 \<and> msg_session msg = 0x0042 \<and>
    message_type_e_value (msg_message_type msg) = 0x80 \<and>
    return_code_e_value (msg_return_code msg) = 0x03 \<and>
    msg_payload msg = Some \<lparr>pl_data = Some [1, 2, 3], pl_length = 3\<rparr>"
proof -
  have r: "m_runtime sample_application = Some sample_runtime"
    by (simp add: sample_application_def)
  have m: "rt_create_message sample_runtime True = Some sample_message"
    by (simp add: sample_runtime_def)
  have a: "m_application sample_application = Some (sample_vs_application ''A1'')"
    by (simp add: sample_application_def)
  from send_response_message [OF r m a, of "0x1234" "0x0001" "0x0421" "0x07" "0x0042" 1
      vsomeip_E_UNKNOWN_METHOD "Some [1, 2, 3]" 3 sample_world]
  obtain msg where
    "send_response sample_application 0x1234 0x0001 0x0421 0x07 0x0042 1 True
        vsomeip_E_UNKNOWN_METHOD (Some [1, 2, 3]) 3 sample_world
      = Inr (record_call (Call_send (get_name (sample_vs_application ''A1'')) msg) sample_world)"
    "msg_service msg = 0x1234" "msg_client msg = 0x07" "msg_session msg = 0x0042"
    "msg_message_type msg = vsomeip_MT_RESPONSE" "msg_return_code msg = vsomeip_E_UNKNOWN_METHOD"
    "msg_payload msg = rt_create_payload sample_runtime (Some [1, 2, 3]) 3"
    by blast
  then show ?thesis
    by (intro exI [of _ msg]) (simp add: sample_vs_application_def sample_runtime_def)
qed

subsection \<open>Errors\<close>

text \<open>
  C5. When the runtime hands out a message object and the application object exists,
  \<^verbatim>\<open>send_error\<close> makes exactly one call, a \<^verbatim>\<open>send\<close>, and the message it hands
  over carries the given client and session, the message type response (0x80, not the
  error type 0x81) and the given return code. It attaches no payload: the payload is
  the one of the message as the runtime created it, which is empty when that one is.
\<close>

theorem send_error_message:
  assumes "m_runtime this = Some rt"
    and "rt_create_message rt reliable = Some msg0"
    and "m_application this = Some v"
    and "payload_empty (msg_payload msg0)"
  shows "\<exists>msg.
    send_error this service instance method client session major reliable rc w
      = Inr (record_call (Call_send (get_name v) msg) w) \<and>
    msg_service msg = service \<and> msg_instance msg = instance \<and> msg_method msg = method \<and>
    msg_client msg = client \<and> msg_session msg = session \<and>
    msg_interface_version msg = major \<and>
    msg_message_type msg = vsomeip_MT_RESPONSE \<and>
    message_type_e_value (msg_message_type msg) = 0x80 \<and>
    msg_message_type msg \<noteq> vsomeip_MT_ERROR \<and>
    msg_return_code msg = rc \<and>
    msg_payload msg = msg_payload msg0 \<and>
    payload_empty (msg_payload msg)"
proof -
  let ?msg = "msg0\<lparr>msg_service := service, msg_instance := instance, msg_method := method,
    msg_client := client, msg_session := session, msg_interface_version := major,
    msg_message_type := vsomeip_MT_RESPONSE, msg_return_code := rc\<rparr>"
  show ?thesis
    using assms
    by (intro exI [of _ ?msg]) (simp add: send_error_def send_def setter_defs Let_def)
qed

theorem send_error_message_witness:
  "\<exists>msg.
    send_error sample_application 0x1234 0x0001 0x0421 0x07 0x0042 1 False
        vsomeip_E_NOT_READY sample_world
      = Inr (record_call (Call_send ''A1'' msg) sample_world) \<and>
    msg_client msg = 0x07 \<and> msg_session msg = 0x0042 \<and>
    message_type_e_value (msg_message_type msg) = 0x80 \<and>
    return_code_e_value (msg_return_code msg) = 0x04 \<and>
    msg_payload msg = Some \<lparr>pl_data = None, pl_length = 0\<rparr>"
proof -
  have r: "m_runtime sample_application = Some sample_runtime"
    by (simp add: sample_application_def)
  have m: "rt_create_message sample_runtime False = Some sample_message"
    by (simp add: sample_runtime_def)
  have a: "m_application sample_application = Some (sample_vs_application ''A1'')"
    by (simp add: sample_application_def)
  have e: "payload_empty (msg_payload sample_message)"
    by (simp add: payload_empty_def sample_message_def)
  from send_error_message [OF r m a e, of "0x1234" "0x0001" "0x0421" "0x07" "0x0042" 1
      vsomeip_E_NOT_READY sample_world]
  obtain msg where
    "send_error sample_application 0x1234 0x0001 0x0421 0x07 0x0042 1 False
        vsomeip_E_NOT_READY sample_world
      = Inr (record_call (Call_send (get_name (sample_vs_application ''A1'')) msg) sample_world)"
    "msg_client msg = 0x07" "msg_session msg = 0x0042"
    "msg_message_type msg = vsomeip_MT_RESPONSE" "msg_return_code msg = vsomeip_E_NOT_READY"
    "msg_payload msg = msg_payload sample_message"
    by blast
  then show ?thesis
    by (intro exI [of _ msg]) (simp add: sample_vs_application_def sample_message_def)
qed

subsection \<open>Requests\<close>

text \<open>
  C2. When the runtime hands out a request object and the application object exists,
  \<^verbatim>\<open>send_request\<close> makes exactly one call, a \<^verbatim>\<open>send\<close>, of a message that
  carries the given service, instance, method and interface version and the payload the
  runtime created from the given bytes, and whose client and session ids (and message
  type and return code) are still those of the object as the runtime created it. The
  value returned is the session id found in the message after the library has sent it.
\<close>

theorem send_request_message:
  assumes "m_runtime this = Some rt"
    and "rt_create_request rt reliable = Some msg0"
    and "m_application this = Some v"
  shows "\<exists>msg.
    send_request this service instance method major data data_len reliable w
      = Inr (msg_session (app_send v msg), record_call (Call_send (get_name v) msg) w) \<and>
    msg_service msg = service \<and> msg_instance msg = instance \<and> msg_method msg = method \<and>
    msg_interface_version msg = major \<and>
    msg_payload msg = rt_create_payload rt data data_len \<and>
    msg_client msg = msg_client msg0 \<and> msg_session msg = msg_session msg0 \<and>
    msg_message_type msg = msg_message_type msg0 \<and>
    msg_return_code msg = msg_return_code msg0"
proof -
  let ?msg = "msg0\<lparr>msg_service := service, msg_instance := instance, msg_method := method,
    msg_payload := rt_create_payload rt data data_len, msg_interface_version := major\<rparr>"
  show ?thesis
    using assms
    by (intro exI [of _ ?msg]) (simp add: send_request_def send_def setter_defs Let_def)
qed

theorem send_request_message_witness:
  "\<exists>msg.
    send_request sample_application 0x1234 0x0001 0x0421 1 (Some [9, 8]) 2 True sample_world
      = Inr (0x0001, record_call (Call_send ''A1'' msg) sample_world) \<and>
    msg_service msg = 0x1234 \<and> msg_instance msg = 0x0001 \<and> msg_method msg = 0x0421 \<and>
    msg_interface_version msg = 1 \<and>
    msg_payload msg = Some \<lparr>pl_data = Some [9, 8], pl_length = 2\<rparr> \<and>
    msg_client msg = 0 \<and> msg_session msg = 0"
proof -
  have r: "m_runtime sample_application = Some sample_runtime"
    by (simp add: sample_application_def)
  have m: "rt_create_request sample_runtime True = Some sample_message"
    by (simp add: sample_runtime_def)
  have a: "m_application sample_application = Some (sample_vs_application ''A1'')"
    by (simp add: sample_application_def)
  from send_request_message [OF r m a, of "0x1234" "0x0001" "0x0421" 1 "Some [9, 8]" 2
      sample_world]
  obtain msg where
    "send_request sample_application 0x1234 0x0001 0x0421 1 (Some [9, 8]) 2 True sample_world
      = Inr (msg_session (app_send (sample_vs_application ''A1'') msg),
             record_call (Call_send (get_name (sample_vs_application ''A1'')) msg) sample_world)"
    "msg_service msg = 0x1234" "msg_instance msg = 0x0001" "msg_method msg = 0x0421"
    "msg_interface_version msg = 1"
    "msg_payload msg = rt_create_payload sample_runtime (Some [9, 8]) 2"
    "msg_client msg = msg_client sample_message" "msg_session msg = msg_session sample_message"
    by blast
  then show ?thesis
    by (intro exI [of _ msg])
      (simp add: sample_vs_application_def sample_runtime_def sample_message_def)
qed

text \<open>
  On the two send paths of the boundary that take a return code, a value outside the
  recognised set ends the process before anything is sent.
\<close>

lemma application_send_paths_exit:
  assumes "assert_app app w = Inr a" and "rc \<notin> recognized_return_codes"
  shows "application_send_response app service instance method client session major reliable
           rc data data_len w = Inl (Exit (Invalid_return_code rc) 1)"
    and "application_send_error app service instance method client session major reliable
           rc w = Inl (Exit (Invalid_return_code rc) 1)"
  using assms
  by (simp_all add: application_send_response_def application_send_error_def
      from_return_code_unrecognized)

subsection \<open>Lifecycle\<close>

text \<open>
  C4. With a runtime present, \<^verbatim>\<open>create_application\<close> returns the null handle when
  the runtime creates no application and when the application it creates fails to
  initialise; in both cases no cell is allocated and no thread is started. When both
  succeed it returns a handle to a live application object whose dispatch thread has
  been started.
\<close>

theorem create_application_result:
  "(rt_create_application rt name = None \<longrightarrow>
      (\<exists>w1. create_application (Some rt) name w = Inr (None, w1) \<and>
         heap w1 = heap w \<and>
         calls w1 = calls w @ [Call_create_application name])) \<and>
   (\<forall>v. rt_create_application rt name = Some v \<and> \<not> app_init v \<longrightarrow>
      (\<exists>w1. create_application (Some rt) name w = Inr (None, w1) \<and>
         heap w1 = heap w \<and>
         calls w1 = calls w @ [Call_create_application name, Call_init (get_name v)])) \<and>
   (\<forall>v. rt_create_application rt name = Some v \<and> app_init v \<longrightarrow>
      (\<exists>h a w1. create_application (Some rt) name w = Inr (Some h, w1) \<and>
         assert_app (Some h) w1 = Inr a \<and>
         m_runtime a = Some rt \<and> m_application a = Some v \<and> m_dispatch_thread a \<and>
         calls w1 = calls w @ [Call_create_application name, Call_init (get_name v),
                               Call_thread (get_name v)]))"
  by (simp add: create_application_def create_def start_def application_ctor_def new_cell_def
      assert_app_def record_call_def Let_def)

theorem create_application_result_witness:
  "(\<exists>w1. create_application (Some (sample_runtime\<lparr>rt_create_application := \<lambda>name. None\<rparr>))
            ''A1'' sample_world = Inr (None, w1) \<and>
      heap w1 = heap sample_world \<and> calls w1 = [Call_create_application ''A1'']) \<and>
   (\<exists>w1. create_application
            (Some (sample_runtime\<lparr>rt_create_application :=
               \<lambda>name. Some ((sample_vs_application name)\<lparr>app_init := False\<rparr>)\<rparr>))
            ''A1'' sample_world = Inr (None, w1) \<and>
      heap w1 = heap sample_world \<and>
      calls w1 = [Call_create_application ''A1'', Call_init ''A1'']) \<and>
   (\<exists>h a w1. create_application (Some sample_runtime) ''A1'' sample_world = Inr (Some h, w1) \<and>
      assert_app (Some h) w1 = Inr a \<and> m_dispatch_thread a \<and>
      calls w1 = [Call_create_application ''A1'', Call_init ''A1'', Call_thread ''A1''])"
proof -
  let ?rt1 = "sample_runtime\<lparr>rt_create_application := \<lambda>name. None\<rparr>"
  let ?v2 = "(sample_vs_application ''A1'')\<lparr>app_init := False\<rparr>"
  let ?rt2 = "sample_runtime\<lparr>rt_create_application :=
         \<lambda>name. Some ((sample_vs_application name)\<lparr>app_init := False\<rparr>)\<rparr>"
  have 1: "rt_create_application ?rt1 ''A1'' = None"
    by simp
  have 2: "rt_create_application ?rt2 ''A1'' = Some ?v2 \<and> \<not> app_init ?v2"
    by simp
  have 3: "rt_create_application sample_runtime ''A1'' = Some (sample_vs_application ''A1'')
      \<and> app_init (sample_vs_application ''A1'')"
    by (simp add: sample_runtime_def sample_vs_application_def)
  have n: "get_name ?v2 = ''A1''" "get_name (sample_vs_application ''A1'') = ''A1''"
    by (simp_all add: sample_vs_application_def)
  have c: "calls sample_world = []"
    by (simp add: sample_world_def)
  from create_application_result [of ?rt1 "''A1''" sample_world] 1
  have a: "\<exists>w1. create_application (Some ?rt1) ''A1'' sample_world = Inr (None, w1) \<and>
      heap w1 = heap sample_world \<and> calls w1 = [Call_create_application ''A1'']"
    unfolding c append_Nil by blast
  from create_application_result [of ?rt2 "''A1''" sample_world] 2
  have "\<exists>w1. create_application (Some ?rt2) ''A1'' sample_world = Inr (None, w1) \<and>
      heap w1 = heap sample_world \<and>
      calls w1 = calls sample_world @ [Call_create_application ''A1'', Call_init (get_name ?v2)]"
    by blast
  then have b: "\<exists>w1. create_application (Some ?rt2) ''A1'' sample_world = Inr (None, w1) \<and>
      heap w1 = heap sample_world \<and>
      calls w1 = [Call_create_application ''A1'', Call_init ''A1'']"
    unfolding c append_Nil n .
  from create_application_result [of sample_runtime "''A1''" sample_world] 3
  have "\<exists>h a w1. create_application (Some sample_runtime) ''A1'' sample_world = Inr (Some h, w1) \<and>
      assert_app (Some h) w1 = Inr a \<and>
      m_runtime a = Some sample_runtime \<and>
      m_application a = Some (sample_vs_application ''A1'') \<and> m_dispatch_thread a \<and>
      calls w1 = calls sample_world @ [Call_create_application ''A1'',
        Call_init (get_name (sample_vs_application ''A1'')),
        Call_thread (get_name (sample_vs_application ''A1''))]"
    by blast
  then have d: "\<exists>h a w1. create_application (Some sample_runtime) ''A1'' sample_world
        = Inr (Some h, w1) \<and>
      assert_app (Some h) w1 = Inr a \<and> m_dispatch_thread a \<and>
      calls w1 = [Call_create_application ''A1'', Call_init ''A1'', Call_thread ''A1'']"
    unfolding c append_Nil n by blast
  from a b d show ?thesis
    by (intro conjI)
qed

text \<open>
  C7. The destructor of an application whose application object and runtime exist
  makes these calls and no others, in this order: it clears all handlers, stops the
  dispatch loop (it signals the library, then joins the thread when there is one to
  join), and removes the application from the runtime. \<^verbatim>\<open>application_delete\<close> on
  a handle to such an application makes the same calls and frees the cell.
\<close>

theorem destructor_order:
  assumes "m_application this = Some v" and "m_runtime this = Some rt"
  shows "(\<exists>w1. application_dtor this w = Inr w1 \<and>
      heap w1 = heap w \<and>
      calls w1 = calls w
        @ [Call_clear_all_handler (get_name v), Call_stop (get_name v)]
        @ (if m_dispatch_thread this then [Call_join] else [])
        @ [Call_remove_application (get_name v)]) \<and>
    (\<forall>h. heap w h = Some (Application_cell (Some this)) \<longrightarrow>
      (\<exists>w2. application_delete (Some h) w = Inr w2 \<and>
        heap w2 = (heap w)(h := None) \<and>
        calls w2 = calls w
          @ [Call_clear_all_handler (get_name v), Call_stop (get_name v)]
          @ (if m_dispatch_thread this then [Call_join] else [])
          @ [Call_remove_application (get_name v)]))"
  using assms
  by (simp add: application_delete_def application_dtor_def stop_def record_call_def
      delete_cell_def Let_def)

theorem destructor_order_witness:
  "(\<exists>w1. application_dtor sample_application sample_world = Inr w1 \<and>
     calls w1 = [Call_clear_all_handler ''A1'', Call_stop ''A1'', Call_join,
                 Call_remove_application ''A1'']) \<and>
   (\<exists>w2. application_delete (Some 0) sample_world = Inr w2 \<and>
     heap w2 0 = None \<and>
     calls w2 = [Call_clear_all_handler ''A1'', Call_stop ''A1'', Call_join,
                 Call_remove_application ''A1''])"
proof -
  have a: "m_application sample_application = Some (sample_vs_application ''A1'')"
    and r: "m_runtime sample_application = Some sample_runtime"
    and j: "m_dispatch_thread sample_application"
    by (simp_all add: sample_application_def)
  have n: "get_name (sample_vs_application ''A1'') = ''A1''"
    by (simp add: sample_vs_application_def)
  have c: "calls sample_world = []"
    and h: "heap sample_world 0 = Some (Application_cell (Some sample_application))"
    by (simp_all add: sample_world_def)
  note t = destructor_order [OF a r, of sample_world, unfolded n c append_Nil]
  from t obtain w1 where 1: "application_dtor sample_application sample_world = Inr w1"
    "calls w1 = [Call_clear_all_handler ''A1'', Call_stop ''A1'']
       @ (if m_dispatch_thread sample_application then [Call_join] else [])
       @ [Call_remove_application ''A1'']"
    by blast
  from t h obtain w2 where 2: "application_delete (Some 0) sample_world = Inr w2"
    "heap w2 = (heap sample_world)(0 := None)"
    "calls w2 = [Call_clear_all_handler ''A1'', Call_stop ''A1'']
       @ (if m_dispatch_thread sample_application then [Call_join] else [])
       @ [Call_remove_application ''A1'']"
    by blast
  from 1 have A: "\<exists>w1. application_dtor sample_application sample_world = Inr w1 \<and>
     calls w1 = [Call_clear_all_handler ''A1'', Call_stop ''A1'', Call_join,
                 Call_remove_application ''A1'']"
    by (simp add: j)
  from 2 have B: "\<exists>w2. application_delete (Some 0) sample_world = Inr w2 \<and>
     heap w2 0 = None \<and>
     calls w2 = [Call_clear_all_handler ''A1'', Call_stop ''A1'', Call_join,
                 Call_remove_application ''A1'']"
    by (simp add: j)
  from A B show ?thesis
    by (intro conjI)
qed

text \<open>
  C8. \<^verbatim>\<open>stop\<close> on an application whose application object exists returns without a
  fault and leaves the thread not joinable; a second \<^verbatim>\<open>stop\<close> returns without a
  fault and leaves the application as the first did. The thread is joined in the first
  call exactly when it was joinable (so not when it was never started) and never in the
  second.
\<close>

theorem stop_idempotent:
  assumes "m_application this = Some v"
  shows "\<exists>w1 w2.
    stop this w = Inr (this\<lparr>m_dispatch_thread := False\<rparr>, w1) \<and>
    stop (this\<lparr>m_dispatch_thread := False\<rparr>) w1 = Inr (this\<lparr>m_dispatch_thread := False\<rparr>, w2) \<and>
    calls w1 = calls w @ Call_stop (get_name v) # (if m_dispatch_thread this then [Call_join] else []) \<and>
    calls w2 = calls w1 @ [Call_stop (get_name v)] \<and>
    heap w2 = heap w \<and> heap w1 = heap w"
  using assms
  by (cases "m_dispatch_thread this") (simp_all add: stop_def record_call_def Let_def)

theorem stop_idempotent_witness:
  "(\<exists>w1 w2.
    stop sample_application sample_world = Inr (sample_application\<lparr>m_dispatch_thread := False\<rparr>, w1) \<and>
    stop (sample_application\<lparr>m_dispatch_thread := False\<rparr>) w1
      = Inr (sample_application\<lparr>m_dispatch_thread := False\<rparr>, w2) \<and>
    calls w1 = [Call_stop ''A1'', Call_join] \<and>
    calls w2 = [Call_stop ''A1'', Call_join, Call_stop ''A1'']) \<and>
   (\<exists>w1. stop (application_ctor (Some sample_runtime) (Some (sample_vs_application ''A1'')))
           sample_world
      = Inr (application_ctor (Some sample_runtime) (Some (sample_vs_application ''A1'')), w1) \<and>
      calls w1 = [Call_stop ''A1''])"
proof -
  let ?never = "application_ctor (Some sample_runtime) (Some (sample_vs_application ''A1''))"
  have a: "m_application sample_application = Some (sample_vs_application ''A1'')"
    and j: "m_dispatch_thread sample_application"
    by (simp_all add: sample_application_def)
  have b: "m_application ?never = Some (sample_vs_application ''A1'')"
    and k: "?never\<lparr>m_dispatch_thread := False\<rparr> = ?never" "\<not> m_dispatch_thread ?never"
    by (simp_all add: application_ctor_def)
  have n: "get_name (sample_vs_application ''A1'') = ''A1''"
    by (simp add: sample_vs_application_def)
  have c: "calls sample_world = []"
    by (simp add: sample_world_def)
  from stop_idempotent [OF a, of sample_world]
  obtain w1 w2 where
    "stop sample_application sample_world = Inr (sample_application\<lparr>m_dispatch_thread := False\<rparr>, w1)"
    "stop (sample_application\<lparr>m_dispatch_thread := False\<rparr>) w1
      = Inr (sample_application\<lparr>m_dispatch_thread := False\<rparr>, w2)"
    "calls w1 = calls sample_world @ Call_stop (get_name (sample_vs_application ''A1''))
       # (if m_dispatch_thread sample_application then [Call_join] else [])"
    "calls w2 = calls w1 @ [Call_stop (get_name (sample_vs_application ''A1''))]"
    by blast
  then have 1: "\<exists>w1 w2.
    stop sample_application sample_world = Inr (sample_application\<lparr>m_dispatch_thread := False\<rparr>, w1) \<and>
    stop (sample_application\<lparr>m_dispatch_thread := False\<rparr>) w1
      = Inr (sample_application\<lparr>m_dispatch_thread := False\<rparr>, w2) \<and>
    calls w1 = [Call_stop ''A1'', Call_join] \<and>
    calls w2 = [Call_stop ''A1'', Call_join, Call_stop ''A1'']"
    by (intro exI [of _ w1] exI [of _ w2]) (simp add: j n c)
  from stop_idempotent [OF b, of sample_world]
  obtain w3 where
    "stop ?never sample_world = Inr (?never\<lparr>m_dispatch_thread := False\<rparr>, w3)"
    "calls w3 = calls sample_world @ Call_stop (get_name (sample_vs_application ''A1''))
       # (if m_dispatch_thread ?never then [Call_join] else [])"
    by blast
  then have 2: "\<exists>w1. stop ?never sample_world = Inr (?never, w1) \<and> calls w1 = [Call_stop ''A1'']"
    by (intro exI [of _ w3]) (simp add: k n c)
  from 1 2 show ?thesis
    by (intro conjI)
qed

subsection \<open>Handles\<close>

text \<open>
  C9. Each of the three destroy operations of the boundary, given the null handle,
  returns without a fault and leaves the world as it was: no cell is freed and no call
  is made.
\<close>

theorem destroy_null_noop:
  "application_delete None w = Inr w \<and> payload_destroy None w = Inr w \<and>
   message_destroy None w = Inr w"
  by (simp add: application_delete_def payload_destroy_def message_destroy_def)

lemma sample_handle:
  "assert_app (Some 0) sample_world = Inr sample_application"
  by (simp add: assert_app_def sample_world_def)

subsection \<open>Payloads\<close>

lemma view_length: "view p n = Some B \<Longrightarrow> unat n = length B"
  by (auto simp: view_def split: option.splits if_splits)

lemma payload_create_get_info:
  assumes "assert_app app w = Inr a" and "m_runtime a = Some rt"
    and "rt_create_payload rt data n = Some p"
  shows "\<exists>h w1. application_payload_create app data n w = Inr (Some h, w1) \<and>
    payload_get_info (Some h) w1 = Inr \<lparr>info_data = pl_data p, info_len = pl_length p\<rparr>"
  using assms
  by (simp add: application_payload_create_def create_payload_def payload_get_info_def
      new_cell_def)

lemma payload_create_empty_get_info:
  assumes "assert_app app w = Inr a" and "m_runtime a = Some rt"
    and "rt_create_payload_empty rt = Some p"
  shows "\<exists>h w1. payload_create_empty app w = Inr (Some h, w1) \<and>
    payload_get_info (Some h) w1 = Inr \<lparr>info_data = pl_data p, info_len = pl_length p\<rparr>"
  using assms
  by (simp add: payload_create_empty_def create_payload_empty_def payload_get_info_def
      new_cell_def)

lemma payload_get_info_null:
  "heap w h = Some (Payload_cell None) \<Longrightarrow>
     payload_get_info (Some h) w = Inr \<lparr>info_data = None, info_len = 0\<rparr>"
  by (simp add: payload_get_info_def)

text \<open>
  C6. On a live application handle: when the pointer and size passed describe the
  bytes \<open>B\<close> and the runtime returns a payload that holds \<open>B\<close>,
  \<^verbatim>\<open>payload_get_info\<close> of the handle that \<^verbatim>\<open>application_payload_create\<close>
  returns describes \<open>B\<close>, in content and in length; when the runtime returns an empty
  payload of length 0, \<^verbatim>\<open>payload_get_info\<close> of the handle that
  \<^verbatim>\<open>payload_create_empty\<close> returns has length 0; and \<^verbatim>\<open>payload_get_info\<close> of a
  handle whose cell holds a null payload pointer is the null pointer with length 0.
\<close>

theorem payload_roundtrip:
  assumes "assert_app app w = Inr a" and "m_runtime a = Some rt"
  shows "(\<forall>p. view data n = Some B \<and> rt_create_payload rt data n = Some p \<and>
              view (pl_data p) (pl_length p) = Some B \<longrightarrow>
            (\<exists>h w1 info. application_payload_create app data n w = Inr (Some h, w1) \<and>
               payload_get_info (Some h) w1 = Inr info \<and>
               view (info_data info) (info_len info) = Some B \<and>
               unat (info_len info) = length B)) \<and>
         (\<forall>p. rt_create_payload_empty rt = Some p \<and> pl_length p = 0 \<longrightarrow>
            (\<exists>h w1 info. payload_create_empty app w = Inr (Some h, w1) \<and>
               payload_get_info (Some h) w1 = Inr info \<and> info_len info = 0)) \<and>
         (\<forall>h. heap w h = Some (Payload_cell None) \<longrightarrow>
            payload_get_info (Some h) w = Inr \<lparr>info_data = None, info_len = 0\<rparr>)"
proof (intro conjI allI impI)
  fix p
  assume p: "view data n = Some B \<and> rt_create_payload rt data n = Some p \<and>
    view (pl_data p) (pl_length p) = Some B"
  then have c: "rt_create_payload rt data n = Some p"
    and v: "view (pl_data p) (pl_length p) = Some B"
    by simp_all
  from payload_create_get_info [OF assms c]
  obtain h w1 where "application_payload_create app data n w = Inr (Some h, w1)"
    "payload_get_info (Some h) w1 = Inr \<lparr>info_data = pl_data p, info_len = pl_length p\<rparr>"
    by blast
  with v view_length [OF v]
  show "\<exists>h w1 info. application_payload_create app data n w = Inr (Some h, w1) \<and>
          payload_get_info (Some h) w1 = Inr info \<and>
          view (info_data info) (info_len info) = Some B \<and> unat (info_len info) = length B"
    by (intro exI [of _ h] exI [of _ w1]
        exI [of _ "\<lparr>info_data = pl_data p, info_len = pl_length p\<rparr>"]) simp
next
  fix p
  assume p: "rt_create_payload_empty rt = Some p \<and> pl_length p = 0"
  from payload_create_empty_get_info [OF assms conjunct1 [OF p]]
  obtain h w1 where "payload_create_empty app w = Inr (Some h, w1)"
    "payload_get_info (Some h) w1 = Inr \<lparr>info_data = pl_data p, info_len = pl_length p\<rparr>"
    by blast
  with p show "\<exists>h w1 info. payload_create_empty app w = Inr (Some h, w1) \<and>
          payload_get_info (Some h) w1 = Inr info \<and> info_len info = 0"
    by (intro exI [of _ h] exI [of _ w1]
        exI [of _ "\<lparr>info_data = pl_data p, info_len = pl_length p\<rparr>"]) simp
next
  fix h
  assume "heap w h = Some (Payload_cell None)"
  then show "payload_get_info (Some h) w = Inr \<lparr>info_data = None, info_len = 0\<rparr>"
    by (rule payload_get_info_null)
qed

theorem payload_roundtrip_witness:
  "(\<exists>h w1 info. application_payload_create (Some 0) (Some [1, 2, 3]) 3 sample_world
        = Inr (Some h, w1) \<and>
      payload_get_info (Some h) w1 = Inr info \<and>
      view (info_data info) (info_len info) = Some [1, 2, 3] \<and>
      unat (info_len info) = length [1, 2, 3 :: u8]) \<and>
   (\<exists>h w1 info. payload_create_empty (Some 0) sample_world = Inr (Some h, w1) \<and>
      payload_get_info (Some h) w1 = Inr info \<and> info_len info = 0) \<and>
   payload_get_info (Some 1) (sample_world\<lparr>heap := (heap sample_world)(1 \<mapsto> Payload_cell None)\<rparr>)
     = Inr \<lparr>info_data = None, info_len = 0\<rparr>"
proof -
  let ?w = "sample_world\<lparr>heap := (heap sample_world)(1 \<mapsto> Payload_cell None)\<rparr>"
  let ?p = "\<lparr>pl_data = Some [1, 2, 3], pl_length = 3\<rparr>"
  have r: "m_runtime sample_application = Some sample_runtime"
    by (simp add: sample_application_def)
  have h': "assert_app (Some 0) ?w = Inr sample_application"
    by (simp add: assert_app_def sample_world_def)
  have p: "view (Some [1, 2, 3]) 3 = Some [1, 2, 3] \<and>
           rt_create_payload sample_runtime (Some [1, 2, 3]) 3 = Some ?p \<and>
           view (pl_data ?p) (pl_length ?p) = Some [1, 2, 3]"
    by (simp add: sample_runtime_def view_def)
  have e: "rt_create_payload_empty sample_runtime = Some \<lparr>pl_data = None, pl_length = 0\<rparr> \<and>
           pl_length \<lparr>pl_data = None, pl_length = 0\<rparr> = 0"
    by (simp add: sample_runtime_def)
  have c: "heap ?w 1 = Some (Payload_cell None)"
    by simp
  note t = payload_roundtrip [OF sample_handle r, of "Some [1, 2, 3]" 3 "[1, 2, 3]"]
  note t' = payload_roundtrip [OF h' r, of "Some [1, 2, 3]" 3 "[1, 2, 3]"]
  from t p have 1: "\<exists>h w1 info. application_payload_create (Some 0) (Some [1, 2, 3]) 3 sample_world
        = Inr (Some h, w1) \<and>
      payload_get_info (Some h) w1 = Inr info \<and>
      view (info_data info) (info_len info) = Some [1, 2, 3] \<and>
      unat (info_len info) = length [1, 2, 3 :: u8]"
    by blast
  from t e have 2: "\<exists>h w1 info. payload_create_empty (Some 0) sample_world = Inr (Some h, w1) \<and>
      payload_get_info (Some h) w1 = Inr info \<and> info_len info = 0"
    by blast
  from t' c have 3: "payload_get_info (Some 1) ?w = Inr \<lparr>info_data = None, info_len = 0\<rparr>"
    by blast
  from 1 2 3 show ?thesis
    by (intro conjI)
qed

subsection \<open>Eventgroup arrays\<close>

text \<open>
  The loop collects the first \<open>event_groups_size\<close> elements of the array into the
  set, as long as the size does not exceed \<^verbatim>\<open>INT_MAX\<close>.
\<close>

lemma event_groups_loop_set:
  "unat n \<le> length egs \<Longrightarrow> unat n \<le> 2147483647 \<Longrightarrow> i \<le> unat n \<Longrightarrow>
     event_groups_loop egs n i s = Inr (s \<union> set (drop i (take (unat n) egs)))"
proof (induction egs n i s rule: event_groups_loop.induct)
  case (1 egs n i s)
  show ?case
  proof (cases "i < unat n")
    case True
    with "1.prems" have lt: "i < length egs" and ne: "i \<noteq> 2147483647"
      by simp_all
    from "1.IH" [OF True lt ne] "1.prems" True
    have "event_groups_loop egs n (Suc i) (insert (egs ! i) s)
            = Inr (insert (egs ! i) s \<union> set (drop (Suc i) (take (unat n) egs)))"
      by simp
    moreover have "drop i (take (unat n) egs) = egs ! i # drop (Suc i) (take (unat n) egs)"
      using lt True by (simp add: Cons_nth_drop_Suc [symmetric])
    ultimately show ?thesis
      using True lt ne by (subst event_groups_loop.simps) simp
  next
    case False
    with "1.prems" have "drop i (take (unat n) egs) = []"
      by simp
    with False show ?thesis
      by (subst event_groups_loop.simps) simp
  qed
qed

lemma event_groups_loop_all:
  "unat n \<le> length egs \<Longrightarrow> unat n \<le> 2147483647 \<Longrightarrow>
     event_groups_loop egs n 0 {} = Inr (set (take (unat n) egs))"
  using event_groups_loop_set [of n egs 0 "{}"] by simp

lemma event_groups_loop_overflow:
  "2147483647 < unat n \<Longrightarrow> 2147483647 < length egs \<Longrightarrow> i \<le> 2147483647 \<Longrightarrow>
     event_groups_loop egs n i s = Inl Signed_overflow"
proof (induction egs n i s rule: event_groups_loop.induct)
  case (1 egs n i s)
  from "1.prems" have lt: "i < unat n" "i < length egs"
    by simp_all
  show ?case
  proof (cases "i = 2147483647")
    case True
    with lt show ?thesis
      by (subst event_groups_loop.simps) simp
  next
    case False
    with "1.prems" have "Suc i \<le> 2147483647"
      by simp
    with "1.IH" [OF lt False] "1.prems"
    have "event_groups_loop egs n (Suc i) (insert (egs ! i) s) = Inl Signed_overflow"
      by simp
    with lt False show ?thesis
      by (subst event_groups_loop.simps) simp
  qed
qed

text \<open>
  For sizes up to \<^verbatim>\<open>INT_MAX\<close> the registration handed to the library depends on
  the array only through the set of its elements: duplicates collapse and the order is
  irrelevant.
\<close>

lemma event_groups_as_set:
  assumes "assert_app app w = Inr a" and "m_application a = Some v"
    and "unat n \<le> length egs" and "unat n \<le> 2147483647"
  shows "application_offer_event app service instance notifier (Some egs) n is_field cycle
           change_resets_cycle update_on_change w
         = Inr (record_call (Call_offer_event (get_name v) service instance notifier
                  (set (take (unat n) egs))
                  (if is_field then ET_FIELD else ET_EVENT) (unat cycle) change_resets_cycle
                  update_on_change RT_UNKNOWN) w)"
    and "application_request_event app service instance notifier (Some egs) n is_field w
         = Inr (record_call (Call_request_event (get_name v) service instance notifier
                  (set (take (unat n) egs))
                  (if is_field then ET_FIELD else ET_EVENT) RT_UNKNOWN) w)"
  using assms
  by (simp_all add: application_offer_event_def application_request_event_def offer_event_def
      request_event_def event_groups_loop_all)

text \<open>
  From \<^verbatim>\<open>INT_MAX + 1\<close> elements on, no registration is made: the counter overflows.
\<close>

lemma event_groups_counter_overflow:
  assumes "assert_app app w = Inr a"
    and "2147483647 < unat n" and "2147483647 < length egs"
  shows "application_offer_event app service instance notifier (Some egs) n is_field cycle
           change_resets_cycle update_on_change w = Inl Signed_overflow"
    and "application_request_event app service instance notifier (Some egs) n is_field w
         = Inl Signed_overflow"
  using assms
  by (simp_all add: application_offer_event_def application_request_event_def
      event_groups_loop_overflow)

text \<open>
  C10. The array is converted to a set, but the conversion counts with an
  \<^verbatim>\<open>int\<close> against a \<^verbatim>\<open>uint32_t\<close> size. The array of 2147483649 copies of the
  eventgroup 1 has the same elements as the array of one, which is registered with the
  set of 1 alone; on the long array the counter reaches \<^verbatim>\<open>INT_MAX\<close> with
  elements left to read and its increment overflows, for the offer and for the request.
\<close>

theorem event_groups_duplicates_overflow:
  "set (replicate 2147483649 1) = {1 :: eventgroup_id} \<and>
   application_offer_event (Some 0) 0x1234 0x0001 0x8001 (Some [1]) 1 False 0 False True
       sample_world
     = Inr (record_call (Call_offer_event ''A1'' 0x1234 0x0001 0x8001 {1} ET_EVENT 0 False
              True RT_UNKNOWN) sample_world) \<and>
   application_offer_event (Some 0) 0x1234 0x0001 0x8001 (Some (replicate 2147483649 1))
       0x80000001 False 0 False True sample_world
     = Inl Signed_overflow \<and>
   application_request_event (Some 0) 0x1234 0x0001 0x8001 (Some [1]) 1 False sample_world
     = Inr (record_call (Call_request_event ''A1'' 0x1234 0x0001 0x8001 {1} ET_EVENT
              RT_UNKNOWN) sample_world) \<and>
   application_request_event (Some 0) 0x1234 0x0001 0x8001 (Some (replicate 2147483649 1))
       0x80000001 False sample_world
     = Inl Signed_overflow"
proof -
  have a: "m_application sample_application = Some (sample_vs_application ''A1'')"
    by (simp add: sample_application_def)
  have n: "get_name (sample_vs_application ''A1'') = ''A1''"
    by (simp add: sample_vs_application_def)
  have big: "2147483647 < unat (0x80000001 :: u32)"
    "2147483647 < length (replicate 2147483649 (1 :: eventgroup_id))"
    by simp_all
  have small: "unat (1 :: u32) \<le> length [1 :: eventgroup_id]" "unat (1 :: u32) \<le> 2147483647"
    by simp_all
  have s: "set (replicate 2147483649 1) = {1 :: eventgroup_id}"
    by simp
  have t: "set (take (unat (1 :: u32)) [1 :: eventgroup_id]) = {1}" "unat (0 :: u32) = 0"
    by simp_all
  note ok = event_groups_as_set(1) [OF sample_handle a small, of "0x1234" "0x0001" "0x8001"
      False 0 False True, unfolded n t if_False]
  note ok' = event_groups_as_set(2) [OF sample_handle a small, of "0x1234" "0x0001" "0x8001"
      False, unfolded n t if_False]
  note bad = event_groups_counter_overflow(1) [OF sample_handle big, of "0x1234" "0x0001"
      "0x8001" False 0 False True]
  note bad' = event_groups_counter_overflow(2) [OF sample_handle big, of "0x1234" "0x0001"
      "0x8001" False]
  from s ok bad ok' bad' show ?thesis
    by (intro conjI)
qed


end
